theory Spec2Isabelle
  imports Complex_Main
begin

section \<open>JavaScript values\<close>

text \<open>
  A request body is what \<^verbatim>\<open>bodyParser.json\<close> produced: a value of \<^verbatim>\<open>JSON.parse\<close>.
  Numbers are rationals (every finite double is one; \<^verbatim>\<open>-0\<close> and \<^verbatim>\<open>0\<close> are both \<open>0\<close> and
  both falsy). An object is the list of its own properties, keys distinct, in insertion
  order. A value of TypeScript type \<^verbatim>\<open>any\<close> is a \<open>json option\<close>, \<open>None\<close> being
  \<^verbatim>\<open>undefined\<close>.
\<close>

datatype json =
    JNull
  | JBool bool
  | JNum rat
  | JStr string
  | JArr "json list"
  | JObj "(string \<times> json) list"

text \<open>What the code throws or what a promise rejects with; the string is \<^verbatim>\<open>.message\<close>.\<close>

datatype js_error = TypeError string | Error string

fun message :: "js_error \<Rightarrow> string" where
  "message (TypeError m) = m"
| "message (Error m) = m"

text \<open>Truthiness (\<^verbatim>\<open>ToBoolean\<close>) of a parsed value and of a possibly undefined one.\<close>

fun truthy :: "json \<Rightarrow> bool" where
  "truthy JNull = False"
| "truthy (JBool b) = b"
| "truthy (JNum n) = (n \<noteq> 0)"
| "truthy (JStr s) = (s \<noteq> [])"
| "truthy (JArr xs) = True"
| "truthy (JObj kvs) = True"

fun truthy_opt :: "json option \<Rightarrow> bool" where
  "truthy_opt None = False"
| "truthy_opt (Some v) = truthy v"

text \<open>
  The property read \<^verbatim>\<open>v.k\<close>. Reading a property of \<^verbatim>\<open>null\<close> throws a TypeError (the
  message is V8's); an object yields its own property or \<^verbatim>\<open>undefined\<close>; a boolean, number,
  string or array has none of the properties the code reads (\<^verbatim>\<open>role\<close>, \<^verbatim>\<open>content\<close>,
  \<^verbatim>\<open>text\<close>, \<^verbatim>\<open>type\<close>), so the read yields \<^verbatim>\<open>undefined\<close>.
\<close>

definition null_read :: "string \<Rightarrow> js_error" where
  "null_read k = TypeError (''Cannot read properties of null (reading '' @ [CHR 0x27] @ k @ [CHR 0x27] @ '')'')"

fun get_prop :: "json \<Rightarrow> string \<Rightarrow> js_error + json option" where
  "get_prop JNull k = Inl (null_read k)"
| "get_prop (JObj kvs) k = Inr (map_of kvs k)"
| "get_prop v k = Inr None"

section \<open>The content normalizer\<close>

text \<open>
  \<^verbatim>\<open>content.every(item => typeof item === 'string')\<close>, returning the strings when the
  test succeeds: \<open>Some ss\<close> exactly when every element is a string.
\<close>

fun every_string :: "json list \<Rightarrow> string list option" where
  "every_string [] = Some []"
| "every_string (JStr s # rest) = map_option ((#) s) (every_string rest)"
| "every_string (v # rest) = None"

text \<open>
  \<^verbatim>\<open>Array.prototype.join\<close> on strings. The separator the code passes is written
  \<^verbatim>\<open>'\\n'\<close> in the source: a backslash followed by the letter n.
\<close>

fun join :: "string \<Rightarrow> string list \<Rightarrow> string" where
  "join sep [] = []"
| "join sep [s] = s"
| "join sep (s # t # rest) = s @ sep @ join sep (t # rest)"

definition backslash_n :: string where
  "backslash_n = [CHR 0x5C, CHR ''n'']"

text \<open>
  \<^verbatim>\<open>content.every(item => item.type && (item.text !== undefined))\<close>. \<^verbatim>\<open>every\<close> stops at the
  first element whose test is falsy, and a throwing test ends it with that error.
\<close>

fun every_typed :: "json list \<Rightarrow> js_error + bool" where
  "every_typed [] = Inr True"
| "every_typed (item # rest) =
     (case get_prop item ''type'' of
        Inl e \<Rightarrow> Inl e
      | Inr t \<Rightarrow>
          if \<not> truthy_opt t then Inr False
          else (case get_prop item ''text'' of
                  Inl e \<Rightarrow> Inl e
                | Inr x \<Rightarrow> if x \<noteq> None then every_typed rest else Inr False))"

text \<open>
  The callback of \<^verbatim>\<open>content.map\<close>: an \<^verbatim>\<open>input_text\<close> block becomes
  \<^verbatim>\<open>{ type: 'text', text: item.text }\<close>, any other element is kept. A property holding
  \<^verbatim>\<open>undefined\<close> is the same as an absent one for every read and for \<^verbatim>\<open>JSON.stringify\<close>.
\<close>

fun rewrite_block :: "json \<Rightarrow> js_error + json" where
  "rewrite_block item =
     (case get_prop item ''type'' of
        Inl e \<Rightarrow> Inl e
      | Inr t \<Rightarrow>
          if t = Some (JStr ''input_text'')
          then (case get_prop item ''text'' of
                  Inl e \<Rightarrow> Inl e
                | Inr x \<Rightarrow>
                    Inr (JObj ((''type'', JStr ''text'') #
                           (case x of None \<Rightarrow> [] | Some v \<Rightarrow> [(''text'', v)]))))
          else Inr item)"

fun map_blocks :: "json list \<Rightarrow> js_error + json list" where
  "map_blocks [] = Inr []"
| "map_blocks (item # rest) =
     (case rewrite_block item of
        Inl e \<Rightarrow> Inl e
      | Inr b \<Rightarrow> (case map_blocks rest of Inl e \<Rightarrow> Inl e | Inr bs \<Rightarrow> Inr (b # bs)))"

text \<open>
  \<^verbatim>\<open>normalizeContent(content)\<close>. \<^verbatim>\<open>JSON.stringify\<close> is the platform's; it is the
  parameter \<open>stringify\<close>. The argument is never \<^verbatim>\<open>undefined\<close>: the only call passes a truthy
  value.
\<close>

fun normalizeContent :: "(json \<Rightarrow> string) \<Rightarrow> json \<Rightarrow> js_error + json" where
  "normalizeContent stringify (JStr s) = Inr (JStr s)"
| "normalizeContent stringify (JArr content) =
     (case every_string content of
        Some ss \<Rightarrow> Inr (JStr (join backslash_n ss))
      | None \<Rightarrow>
          (case every_typed content of
             Inl e \<Rightarrow> Inl e
           | Inr True \<Rightarrow> (case map_blocks content of Inl e \<Rightarrow> Inl e | Inr bs \<Rightarrow> Inr (JArr bs))
           | Inr False \<Rightarrow> Inr (JArr content)))"
| "normalizeContent stringify content = Inr (JStr (stringify content))"

section \<open>The format transformer\<close>

text \<open>
  \<^verbatim>\<open>OpenAIResponsesFormat\<close>, with the field types the interface declares; an optional
  field is an option. \<^verbatim>\<open>temperature\<close> and \<^verbatim>\<open>max_tokens\<close> are not declared and come through
  the index signature \<^verbatim>\<open>[key: string]: any\<close>.
\<close>

record OpenAIResponsesFormat =
  model :: "string option"
  instructions :: "string option"
  input :: "json option"
  stream :: "bool option"
  parallel_tool_calls :: "bool option"
  tools :: "json list option"
  temperature :: "json option"
  max_tokens :: "json option"

text \<open>An element of \<^verbatim>\<open>messages\<close>: \<^verbatim>\<open>role\<close> is whatever the item held.\<close>

record chat_message =
  role :: json
  content :: json

text \<open>
  \<^verbatim>\<open>OpenAIChatFormat\<close> as \<^verbatim>\<open>transformRequest\<close> builds it. The fields carry the prefix
  \<open>chat_\<close> where the name is also a field of the inbound record.
\<close>

record OpenAIChatFormat =
  chat_model :: "string option"
  messages :: "chat_message list"
  chat_temperature :: json
  chat_max_tokens :: json
  chat_stream :: bool
  chat_tools :: "json list option"
  chat_parallel_tool_calls :: "bool option"

text \<open>\<^verbatim>\<open>item.content || item.text\<close>: the second read happens only when the first is falsy.\<close>

definition content_or_text :: "json \<Rightarrow> js_error + json option" where
  "content_or_text item =
     (case get_prop item ''content'' of
        Inl e \<Rightarrow> Inl e
      | Inr c \<Rightarrow> if truthy_opt c then Inr c else get_prop item ''text'')"

text \<open>
  The loop \<^verbatim>\<open>for (const item of original.input)\<close>, pushing onto the message list
  built so far. An item is pushed when \<^verbatim>\<open>item.role && (item.content || item.text)\<close> is
  truthy; an error of a property read or of the normalizer leaves the loop.
\<close>

fun push_items :: "(json \<Rightarrow> string) \<Rightarrow> json list \<Rightarrow> chat_message list \<Rightarrow> js_error + chat_message list" where
  "push_items stringify [] msgs = Inr msgs"
| "push_items stringify (item # rest) msgs =
     (case get_prop item ''role'' of
        Inl e \<Rightarrow> Inl e
      | Inr None \<Rightarrow> push_items stringify rest msgs
      | Inr (Some r) \<Rightarrow>
          if \<not> truthy r then push_items stringify rest msgs
          else (case content_or_text item of
                  Inl e \<Rightarrow> Inl e
                | Inr None \<Rightarrow> push_items stringify rest msgs
                | Inr (Some c) \<Rightarrow>
                    if \<not> truthy c then push_items stringify rest msgs
                    else (case normalizeContent stringify c of
                            Inl e \<Rightarrow> Inl e
                          | Inr n \<Rightarrow>
                              push_items stringify rest (msgs @ [\<lparr>role = r, content = n\<rparr>]))))"

text \<open>The system message pushed when \<^verbatim>\<open>original.instructions\<close> is truthy.\<close>

definition system_messages :: "OpenAIResponsesFormat \<Rightarrow> chat_message list" where
  "system_messages original =
     (case instructions original of
        None \<Rightarrow> []
      | Some i \<Rightarrow> if i \<noteq> [] then [\<lparr>role = JStr ''system'', content = JStr i\<rparr>] else [])"

definition transformRequest :: "(json \<Rightarrow> string) \<Rightarrow> OpenAIResponsesFormat \<Rightarrow> js_error + OpenAIChatFormat" where
  "transformRequest stringify original =
     (let transformed =
            \<lparr>chat_model = model original,
             messages = [],
             chat_temperature = JNum (7 / 10),
             chat_max_tokens = JNum (- 1),
             chat_stream = (case stream original of Some True \<Rightarrow> True | _ \<Rightarrow> False),
             chat_tools = None,
             chat_parallel_tool_calls = None\<rparr>;
          transformed = transformed\<lparr>messages := messages transformed @ system_messages original\<rparr>
      in case (case input original of
                 Some (JArr items) \<Rightarrow> push_items stringify items (messages transformed)
               | _ \<Rightarrow> Inr (messages transformed)) of
           Inl e \<Rightarrow> Inl e
         | Inr msgs \<Rightarrow>
             (let transformed = transformed\<lparr>messages := msgs\<rparr>;
                  transformed =
                    (case tools original of
                       Some ts \<Rightarrow> if length ts > 0 then transformed\<lparr>chat_tools := Some ts\<rparr> else transformed
                     | None \<Rightarrow> transformed);
                  transformed =
                    (case temperature original of
                       Some v \<Rightarrow> transformed\<lparr>chat_temperature := v\<rparr>
                     | None \<Rightarrow> transformed);
                  transformed =
                    (case max_tokens original of
                       Some v \<Rightarrow> transformed\<lparr>chat_max_tokens := v\<rparr>
                     | None \<Rightarrow> transformed);
                  transformed =
                    (case parallel_tool_calls original of
                       Some b \<Rightarrow> transformed\<lparr>chat_parallel_tool_calls := Some b\<rparr>
                     | None \<Rightarrow> transformed)
              in Inr transformed))"

section \<open>The upstream, the configuration and the response object\<close>

text \<open>The part of \<^verbatim>\<open>config\<close> the code reads: \<^verbatim>\<open>config.upstream\<close> and \<^verbatim>\<open>config.timeouts.healthCheck\<close>.\<close>

record config =
  baseURL :: string
  apiKeyHeader :: string
  apiKeyValue :: string
  healthCheckPath :: string
  healthCheck :: nat

text \<open>
  The second argument of \<^verbatim>\<open>fetch\<close>. The headers object is a map: a computed key equal to
  an earlier key replaces it.
\<close>

record fetch_init =
  init_method :: "string option"
  init_headers :: "string \<rightharpoonup> string"
  init_body :: "string option"
  init_timeout :: "nat option"

text \<open>
  What \<^verbatim>\<open>fetch\<close> resolved with. \<^verbatim>\<open>text_result\<close> and \<^verbatim>\<open>json_result\<close> are the outcomes of
  awaiting \<^verbatim>\<open>response.text()\<close> and \<^verbatim>\<open>response.json()\<close>. \<^verbatim>\<open>response.body\<close> is \<open>None\<close> when
  falsy, else the chunks the async iteration yields followed by its end (\<open>None\<close>) or the
  error it throws. Every awaited promise is taken to settle, and a stream to end or fail
  after finitely many chunks.
\<close>

record response =
  ok :: bool
  status :: nat
  text_result :: "js_error + string"
  json_result :: "js_error + json"
  body_stream :: "(string list \<times> js_error option) option"

text \<open>
  The surroundings of a handler: the configuration, \<^verbatim>\<open>fetch\<close> (resolving with a response
  or rejecting with an error), \<^verbatim>\<open>JSON.stringify\<close> on parsed values and on the outbound
  body.
\<close>

record env =
  config :: config
  fetch :: "string \<Rightarrow> fetch_init \<Rightarrow> js_error + response"
  JSON_stringify :: "json \<Rightarrow> string"
  stringify_body :: "OpenAIChatFormat \<Rightarrow> string"

text \<open>
  The Express response is the sequence of calls made on it, as the mock of the contract
  test records them. Calls of the logger have no effect on a result and are left out.
\<close>

datatype res_call =
    Status nat
  | Send string
  | Json json
  | SetHeader string string
  | Write string
  | End

record request =
  http_method :: string
  path :: string
  body :: OpenAIResponsesFormat

text \<open>
  The response object is that of Express 4 (\<^verbatim>\<open>"express": "^4.18.2"\<close>) on a Node response.
  The headers go out with the first \<^verbatim>\<open>write\<close>, \<^verbatim>\<open>send\<close>, \<^verbatim>\<open>json\<close> or \<^verbatim>\<open>end\<close>. From then on
  \<^verbatim>\<open>setHeader\<close>, \<^verbatim>\<open>send\<close> and \<^verbatim>\<open>json\<close> throw \<^verbatim>\<open>ERR_HTTP_HEADERS_SENT\<close> (both \<^verbatim>\<open>send\<close> and
  \<^verbatim>\<open>json\<close> set the content type first); \<^verbatim>\<open>status\<close> only assigns the status code, and
  \<^verbatim>\<open>write\<close> and \<^verbatim>\<open>end\<close> do not throw. On a response whose headers are not sent yet no
  call throws, which is where the buffered forward below makes its calls.
\<close>

fun sends_headers :: "res_call \<Rightarrow> bool" where
  "sends_headers (Status n) = False"
| "sends_headers (SetHeader k v) = False"
| "sends_headers (Send t) = True"
| "sends_headers (Json j) = True"
| "sends_headers (Write chunk) = True"
| "sends_headers End = True"

definition headersSent :: "res_call list \<Rightarrow> bool" where
  "headersSent res = list_ex sends_headers res"

fun sets_headers :: "res_call \<Rightarrow> bool" where
  "sets_headers (SetHeader k v) = True"
| "sets_headers (Send t) = True"
| "sets_headers (Json j) = True"
| "sets_headers (Status n) = False"
| "sets_headers (Write chunk) = False"
| "sets_headers End = False"

definition ERR_HTTP_HEADERS_SENT :: js_error where
  "ERR_HTTP_HEADERS_SENT = Error ''Cannot set headers after they are sent to the client''"

text \<open>
  A run of calls on the response, in order, up to the first that throws: the error (if
  any) and the calls the response has taken.
\<close>

fun express_calls :: "res_call list \<Rightarrow> res_call list \<Rightarrow> js_error option \<times> res_call list" where
  "express_calls [] res = (None, res)"
| "express_calls (c # cs) res =
     (if sets_headers c \<and> headersSent res then (Some ERR_HTTP_HEADERS_SENT, res)
      else express_calls cs (res @ [c]))"

section \<open>The upstream forwarder\<close>

text \<open>The two arguments of the \<^verbatim>\<open>fetch\<close> call, buffered and streaming.\<close>

definition chat_completions_url :: "env \<Rightarrow> string" where
  "chat_completions_url env = baseURL (config env) @ ''/chat/completions''"

definition buffered_init :: "env \<Rightarrow> OpenAIChatFormat \<Rightarrow> fetch_init" where
  "buffered_init env b =
     \<lparr>init_method = Some ''POST'',
      init_headers = [''Content-Type'' \<mapsto> ''application/json'',
                      apiKeyHeader (config env) \<mapsto> ''Bearer '' @ apiKeyValue (config env)],
      init_body = Some (stringify_body env b),
      init_timeout = None\<rparr>"

definition streaming_init :: "env \<Rightarrow> OpenAIChatFormat \<Rightarrow> fetch_init" where
  "streaming_init env b =
     \<lparr>init_method = Some ''POST'',
      init_headers = [''Content-Type'' \<mapsto> ''application/json'',
                      apiKeyHeader (config env) \<mapsto> ''Bearer '' @ apiKeyValue (config env),
                      ''Accept'' \<mapsto> ''text/event-stream''],
      init_body = Some (stringify_body env b),
      init_timeout = None\<rparr>"

text \<open>The body of a 502 answer: \<^verbatim>\<open>{ error: `<prefix>${error.message}` }\<close>.\<close>

definition error_envelope :: "string \<Rightarrow> js_error \<Rightarrow> json" where
  "error_envelope prefix e = JObj [(''error'', JStr (prefix @ message e))]"

definition handleNonStreamingRequest :: "env \<Rightarrow> OpenAIChatFormat \<Rightarrow> res_call list \<Rightarrow> bool \<times> res_call list" where
  "handleNonStreamingRequest env b res =
     (let catch = (\<lambda>e. (True, res @ [Status 502, Json (error_envelope ''Error forwarding request: '' e)]))
      in case fetch env (chat_completions_url env) (buffered_init env b) of
           Inl e \<Rightarrow> catch e
         | Inr response \<Rightarrow>
             if \<not> ok response
             then (case text_result response of
                     Inl e \<Rightarrow> catch e
                   | Inr errorText \<Rightarrow> (True, res @ [Status (status response), Send errorText]))
             else (case json_result response of
                     Inl e \<Rightarrow> catch e
                   | Inr data \<Rightarrow> (True, res @ [Json data])))"

text \<open>
  The streaming forward. Whatever is thrown inside \<^verbatim>\<open>try\<close>, by the upstream or by a call
  on the response, enters the \<^verbatim>\<open>catch\<close> block; what the \<^verbatim>\<open>catch\<close> block itself throws
  leaves the function, which then rejects. The result is the boolean the promise resolves
  with or the error it rejects with, and the calls the response has taken.
\<close>

definition streaming_catch :: "res_call list \<Rightarrow> js_error \<Rightarrow> (js_error + bool) \<times> res_call list" where
  "streaming_catch res e =
     (case express_calls [Status 502, Json (error_envelope ''Error streaming response: '' e)] res of
        (Some thrown, res1) \<Rightarrow> (Inl thrown, res1)
      | (None, res1) \<Rightarrow> (Inr True, res1))"

definition handleStreamingRequest ::
    "env \<Rightarrow> OpenAIChatFormat \<Rightarrow> res_call list \<Rightarrow> (js_error + bool) \<times> res_call list" where
  "handleStreamingRequest env b res =
     (case fetch env (chat_completions_url env) (streaming_init env b) of
        Inl e \<Rightarrow> streaming_catch res e
      | Inr response \<Rightarrow>
          if \<not> ok response
          then (case text_result response of
                  Inl e \<Rightarrow> streaming_catch res e
                | Inr errorText \<Rightarrow>
                    (case express_calls [Status (status response), Send errorText] res of
                       (Some thrown, res1) \<Rightarrow> streaming_catch res1 thrown
                     | (None, res1) \<Rightarrow> (Inr True, res1)))
          else
            (case express_calls [SetHeader ''Content-Type'' ''text/event-stream'',
                                 SetHeader ''Cache-Control'' ''no-cache'',
                                 SetHeader ''Connection'' ''keep-alive''] res of
               (Some thrown, res1) \<Rightarrow> streaming_catch res1 thrown
             | (None, res1) \<Rightarrow>
                 (case body_stream response of
                    None \<Rightarrow>
                      (case express_calls
                              [Status 502,
                               Json (JObj [(''error'', JStr ''No response stream from upstream'')])] res1 of
                         (Some thrown, res2) \<Rightarrow> streaming_catch res2 thrown
                       | (None, res2) \<Rightarrow> (Inr True, res2))
                  | Some (chunks, failure) \<Rightarrow>
                      (case express_calls (map Write chunks) res1 of
                         (Some thrown, res2) \<Rightarrow> streaming_catch res2 thrown
                       | (None, res2) \<Rightarrow>
                           (case failure of
                              Some e \<Rightarrow> streaming_catch res2 e
                            | None \<Rightarrow>
                                (case express_calls [End] res2 of
                                   (Some thrown, res3) \<Rightarrow> streaming_catch res3 thrown
                                 | (None, res3) \<Rightarrow> (Inr True, res3)))))))"

section \<open>The handler\<close>

text \<open>
  \<^verbatim>\<open>handle(req, res)\<close>. \<open>res\<close> is the response Express made for the request: no call has
  been made on it (the middleware before the router parses the body and logs). The
  buffered forward resolves, its calls being made before anything is written. An error
  thrown by the transformer or leaving the streaming forward enters the \<^verbatim>\<open>catch\<close> block,
  and what the \<^verbatim>\<open>catch\<close> block itself throws makes \<^verbatim>\<open>handle\<close> reject.
\<close>

definition handle_catch :: "res_call list \<Rightarrow> js_error \<Rightarrow> (js_error + bool) \<times> res_call list" where
  "handle_catch res error =
     (case express_calls
             [Status 500,
              Json (JObj [(''error'',
                      JObj [(''message'', JStr (''Error handling request: '' @ message error)),
                            (''type'', JStr ''proxy_error'')])])] res of
        (Some thrown, res1) \<Rightarrow> (Inl thrown, res1)
      | (None, res1) \<Rightarrow> (Inr True, res1))"

definition handle :: "env \<Rightarrow> request \<Rightarrow> (js_error + bool) \<times> res_call list" where
  "handle env req =
     (let requestBody = body req;
          res = []
      in case transformRequest (JSON_stringify env) requestBody of
           Inl error \<Rightarrow> handle_catch res error
         | Inr transformedBody \<Rightarrow>
             if stream requestBody = Some True
             then (case handleStreamingRequest env transformedBody res of
                     (Inl error, res1) \<Rightarrow> handle_catch res1 error
                   | (Inr handled, res1) \<Rightarrow> (Inr handled, res1))
             else (case handleNonStreamingRequest env transformedBody res of
                     (handled, res1) \<Rightarrow> (Inr handled, res1)))"

text \<open>
  The plugin middleware of the router, given the \<^verbatim>\<open>handle\<close> of the handler \<^verbatim>\<open>findHandler\<close>
  found (if any). The first component of the result tells whether \<^verbatim>\<open>next()\<close> was called,
  which passes the request on to the generic proxy: when there is no handler, when it
  resolves with false and when it rejects.
\<close>

definition plugin_middleware ::
    "(request \<Rightarrow> (js_error + bool) \<times> res_call list) option \<Rightarrow> request \<Rightarrow> bool \<times> res_call list" where
  "plugin_middleware handler req =
     (case handler of
        None \<Rightarrow> (True, [])
      | Some h \<Rightarrow>
          (case h req of
             (Inr handled, res1) \<Rightarrow> if handled then (False, res1) else (True, res1)
           | (Inl error, res1) \<Rightarrow> (True, res1)))"

text \<open>
  The upstream fails in mid-stream: it answered ok, its body yielded at least one chunk
  and then threw.
\<close>

definition fails_mid_stream :: "env \<Rightarrow> OpenAIChatFormat \<Rightarrow> bool" where
  "fails_mid_stream env b =
     (case fetch env (chat_completions_url env) (streaming_init env b) of
        Inl e \<Rightarrow> False
      | Inr response \<Rightarrow>
          ok response \<and>
          (case body_stream response of
             Some (chunks, Some e) \<Rightarrow> chunks \<noteq> []
           | _ \<Rightarrow> False))"

section \<open>The health aggregate\<close>

text \<open>
  A registered plugin, as far as the aggregate reads it: its name and the outcome of
  awaiting its \<^verbatim>\<open>checkHealth()\<close>, a boolean or a rejection.
\<close>

record plugin =
  name :: string
  checkHealth :: "js_error + bool"

text \<open>
  The probe both \<^verbatim>\<open>checkUpstreamHealth\<close> (with no plugin) and the plugin's \<^verbatim>\<open>checkHealth\<close>
  make: a \<^verbatim>\<open>fetch\<close> with no method given (a GET) of the health path, \<^verbatim>\<open>response.ok\<close> when
  it resolves and \<^verbatim>\<open>false\<close> when it rejects.
\<close>

definition health_url :: "env \<Rightarrow> string" where
  "health_url env = baseURL (config env) @ healthCheckPath (config env)"

definition health_init :: "env \<Rightarrow> fetch_init" where
  "health_init env =
     \<lparr>init_method = None,
      init_headers = [apiKeyHeader (config env) \<mapsto> ''Bearer '' @ apiKeyValue (config env)],
      init_body = None,
      init_timeout = Some (healthCheck (config env))\<rparr>"

definition health_probe :: "env \<Rightarrow> bool" where
  "health_probe env =
     (case fetch env (health_url env) (health_init env) of
        Inl e \<Rightarrow> False
      | Inr response \<Rightarrow> ok response)"

text \<open>The registered plugin: its \<^verbatim>\<open>checkHealth\<close> is this probe and never rejects.\<close>

definition v1ResponsesPlugin :: "env \<Rightarrow> plugin" where
  "v1ResponsesPlugin env = \<lparr>name = ''v1-responses'', checkHealth = Inr (health_probe env)\<rparr>"

definition checkUpstreamHealth :: "env \<Rightarrow> plugin list \<Rightarrow> bool" where
  "checkUpstreamHealth env enabledPlugins =
     (if length enabledPlugins = 0 then health_probe env
      else
        (let results = map (\<lambda>plugin. case checkHealth plugin of Inl e \<Rightarrow> False | Inr b \<Rightarrow> b) enabledPlugins
         in list_ex (\<lambda>result. result = True) results))"

section \<open>Concrete surroundings\<close>

text \<open>
  The default configuration of the source, and the surroundings the contract test sets
  up: a \<^verbatim>\<open>fetch\<close> that rejects with an error, one that resolves with a given response.
  \<open>opaque_text\<close> and \<open>opaque_body\<close> stand for the serializer where a result does not depend
  on what it prints.
\<close>

definition defaultConfig :: config where
  "defaultConfig =
     \<lparr>baseURL = ''http://localhost:1234/v1'',
      apiKeyHeader = ''Authorization'',
      apiKeyValue = [],
      healthCheckPath = ''/models'',
      healthCheck = 5000\<rparr>"

definition opaque_text :: "json \<Rightarrow> string" where
  "opaque_text v = ''<json>''"

definition opaque_body :: "OpenAIChatFormat \<Rightarrow> string" where
  "opaque_body b = ''<body>''"

definition mockRejectedValue :: "js_error \<Rightarrow> string \<Rightarrow> fetch_init \<Rightarrow> js_error + response" where
  "mockRejectedValue e url init = Inl e"

definition mockResolvedValue :: "response \<Rightarrow> string \<Rightarrow> fetch_init \<Rightarrow> js_error + response" where
  "mockResolvedValue r url init = Inr r"

definition test_env :: "(string \<Rightarrow> fetch_init \<Rightarrow> js_error + response) \<Rightarrow> env" where
  "test_env f = \<lparr>config = defaultConfig, fetch = f, JSON_stringify = opaque_text, stringify_body = opaque_body\<rparr>"

text \<open>A request body with every optional field absent.\<close>

definition empty_request :: OpenAIResponsesFormat where
  "empty_request =
     \<lparr>model = Some ''gpt-4'', instructions = None, input = None, stream = None,
      parallel_tool_calls = None, tools = None, temperature = None, max_tokens = None\<rparr>"

text \<open>The outbound body of the contract test's request with one user message.\<close>

definition hello_chat :: OpenAIChatFormat where
  "hello_chat =
     \<lparr>chat_model = Some ''gpt-4'',
      messages = [\<lparr>role = JStr ''user'', content = JStr ''Hello!''\<rparr>],
      chat_temperature = JNum (7 / 10),
      chat_max_tokens = JNum (- 1),
      chat_stream = False,
      chat_tools = None,
      chat_parallel_tool_calls = None\<rparr>"

section \<open>Shapes of content and of input items\<close>

text \<open>
  The notions the statements below use, written without the control flow of the code.
  \<open>field v k\<close> is the property \<open>k\<close> of an object and \<^verbatim>\<open>undefined\<close> for anything else.
\<close>

definition field :: "json \<Rightarrow> string \<Rightarrow> json option" where
  "field v k = (case v of JObj kvs \<Rightarrow> map_of kvs k | _ \<Rightarrow> None)"

definition typeof_string :: "json \<Rightarrow> bool" where
  "typeof_string v = (case v of JStr s \<Rightarrow> True | _ \<Rightarrow> False)"

text \<open>A typed block: an element with a truthy \<^verbatim>\<open>type\<close> and a \<^verbatim>\<open>text\<close> that is not undefined.\<close>

definition typed_block :: "json \<Rightarrow> bool" where
  "typed_block item = (truthy_opt (field item ''type'') \<and> field item ''text'' \<noteq> None)"

text \<open>
  An input item is selected when its \<^verbatim>\<open>role\<close> is truthy and its \<^verbatim>\<open>content\<close> or its \<^verbatim>\<open>text\<close>
  is truthy; \<open>chosen_content\<close> is then the value of \<^verbatim>\<open>item.content || item.text\<close>.
\<close>

definition selected :: "json \<Rightarrow> bool" where
  "selected item =
     (truthy_opt (field item ''role'') \<and>
      (truthy_opt (field item ''content'') \<or> truthy_opt (field item ''text'')))"

definition chosen_content :: "json \<Rightarrow> json option" where
  "chosen_content item =
     (if truthy_opt (field item ''content'') then field item ''content'' else field item ''text'')"

text \<open>
  An item the transformer handles without throwing: not \<^verbatim>\<open>null\<close>, and neither its
  \<^verbatim>\<open>content\<close> nor its \<^verbatim>\<open>text\<close> is an array holding \<^verbatim>\<open>null\<close>.
\<close>

fun null_free_array :: "json option \<Rightarrow> bool" where
  "null_free_array (Some (JArr xs)) = (JNull \<notin> set xs)"
| "null_free_array v = True"

definition well_formed_item :: "json \<Rightarrow> bool" where
  "well_formed_item item =
     (item \<noteq> JNull \<and> null_free_array (field item ''content'') \<and> null_free_array (field item ''text''))"

text \<open>
  A message made from an item: the item's \<^verbatim>\<open>role\<close>, and the normalizer's result on
  \<^verbatim>\<open>item.content || item.text\<close>.
\<close>

definition made_from :: "(json \<Rightarrow> string) \<Rightarrow> json \<Rightarrow> chat_message \<Rightarrow> bool" where
  "made_from S item m =
     (field item ''role'' = Some (role m) \<and>
      (case chosen_content item of
         None \<Rightarrow> False
       | Some c \<Rightarrow> normalizeContent S c = Inr (content m)))"

text \<open>The messages the loop makes from \<^verbatim>\<open>original.input\<close>, none when it is not an array.\<close>

definition input_messages :: "(json \<Rightarrow> string) \<Rightarrow> OpenAIResponsesFormat \<Rightarrow> js_error + chat_message list" where
  "input_messages S original =
     (case input original of
        Some (JArr items) \<Rightarrow> push_items S items []
      | _ \<Rightarrow> Inr [])"

section \<open>Facts about the normalizer\<close>

lemma every_string_map: "every_string (map JStr ss) = Some ss"
  by (induction ss) simp_all

lemma every_string_None: "every_string xs = None \<longleftrightarrow> \<not> list_all typeof_string xs"
proof (induction xs)
  case Nil
  show ?case by simp
next
  case (Cons x xs)
  then show ?case by (cases x) (auto simp: typeof_string_def)
qed

lemma every_typed_no_null:
  "JNull \<notin> set xs \<Longrightarrow> every_typed xs = Inr (list_all typed_block xs)"
proof (induction xs)
  case Nil
  show ?case by simp
next
  case (Cons x xs)
  then show ?case by (cases x) (auto simp: typed_block_def field_def)
qed

lemma rewrite_block_no_null: "item \<noteq> JNull \<Longrightarrow> \<exists>b. rewrite_block item = Inr b"
  by (cases item) simp_all

lemma map_blocks_no_null: "JNull \<notin> set xs \<Longrightarrow> \<exists>bs. map_blocks xs = Inr bs"
proof (induction xs)
  case Nil
  show ?case by simp
next
  case (Cons x xs)
  then obtain bs where bs: "map_blocks xs = Inr bs" by auto
  from Cons.prems have "x \<noteq> JNull" by auto
  then obtain b where "rewrite_block x = Inr b" using rewrite_block_no_null by blast
  with bs show ?case by simp
qed

lemma normalizeContent_no_null:
  assumes "\<And>xs. c = JArr xs \<Longrightarrow> JNull \<notin> set xs"
  shows "\<exists>n. normalizeContent S c = Inr n"
proof (cases c)
  case (JArr xs)
  then have nn: "JNull \<notin> set xs" using assms by simp
  obtain bs where "map_blocks xs = Inr bs" using map_blocks_no_null[OF nn] by blast
  then show ?thesis using JArr every_typed_no_null[OF nn]
    by (simp split: option.splits bool.splits)
qed simp_all


section \<open>Facts about the item loop\<close>

lemma get_prop_field: "item \<noteq> JNull \<Longrightarrow> get_prop item k = Inr (field item k)"
  by (cases item) (simp_all add: field_def)

lemma content_or_text_field:
  "item \<noteq> JNull \<Longrightarrow> content_or_text item = Inr (chosen_content item)"
  by (simp add: content_or_text_def chosen_content_def get_prop_field)

lemma push_items_selected:
  assumes "item \<noteq> JNull" "selected item"
  shows "\<exists>r c. field item ''role'' = Some r \<and> chosen_content item = Some c \<and>
           (\<forall>msgs. push_items S (item # rest) msgs =
             (case normalizeContent S c of
                Inl e \<Rightarrow> Inl e
              | Inr n \<Rightarrow> push_items S rest (msgs @ [\<lparr>role = r, content = n\<rparr>])))"
proof -
  from assms(2) obtain r where r: "field item ''role'' = Some r" "truthy r"
    by (cases "field item ''role''") (auto simp: selected_def)
  from assms(2) have "truthy_opt (chosen_content item)"
    by (auto simp: selected_def chosen_content_def)
  then obtain c where c: "chosen_content item = Some c" "truthy c"
    by (cases "chosen_content item") auto
  show ?thesis using r c assms(1)
    by (simp add: get_prop_field content_or_text_field)
qed

lemma push_items_skipped:
  assumes "item \<noteq> JNull" "\<not> selected item"
  shows "push_items S (item # rest) msgs = push_items S rest msgs"
proof -
  have "truthy_opt (chosen_content item) = (truthy_opt (field item ''content'') \<or> truthy_opt (field item ''text''))"
    by (simp add: chosen_content_def)
  with assms(2) have "\<not> truthy_opt (field item ''role'') \<or> \<not> truthy_opt (chosen_content item)"
    by (simp add: selected_def)
  then show ?thesis using assms(1)
    by (cases "field item ''role''"; cases "chosen_content item")
       (auto simp: get_prop_field content_or_text_field)
qed

lemma push_items_acc:
  "push_items S items acc =
     (case push_items S items [] of Inl e \<Rightarrow> Inl e | Inr ms \<Rightarrow> Inr (acc @ ms))"
proof (induction items arbitrary: acc)
  case Nil
  show ?case by simp
next
  case (Cons item rest)
  show ?case
  proof (cases "item = JNull")
    case True
    then show ?thesis by simp
  next
    case nn: False
    show ?thesis
    proof (cases "selected item")
      case False
      show ?thesis
        using Cons.IH[of acc] by (simp only: push_items_skipped[OF nn False])
    next
      case True
      from push_items_selected[OF nn True, of S rest]
      obtain r c where step: "\<And>msgs. push_items S (item # rest) msgs =
             (case normalizeContent S c of
                Inl e \<Rightarrow> Inl e
              | Inr n \<Rightarrow> push_items S rest (msgs @ [\<lparr>role = r, content = n\<rparr>]))"
        by blast
      show ?thesis
      proof (cases "normalizeContent S c")
        case (Inl e)
        then show ?thesis by (simp add: step del: push_items.simps)
      next
        case (Inr n)
        let ?m = "\<lparr>role = r, content = n\<rparr>"
        have l: "push_items S (item # rest) acc = push_items S rest (acc @ [?m])"
          using Inr by (simp add: step del: push_items.simps)
        have r: "push_items S (item # rest) [] = push_items S rest [?m]"
          using Inr by (simp add: step del: push_items.simps)
        show ?thesis
          unfolding l r
          by (subst Cons.IH[of "acc @ [?m]"], subst Cons.IH[of "[?m]"])
             (simp split: sum.splits)
      qed
    qed
  qed
qed

lemma push_items_made_from:
  "push_items S items [] = Inr ms \<Longrightarrow> list_all2 (made_from S) (filter selected items) ms"
proof (induction items arbitrary: ms)
  case Nil
  then show ?case by simp
next
  case (Cons item rest)
  have nn: "item \<noteq> JNull" using Cons.prems by (cases item) simp_all
  show ?case
  proof (cases "selected item")
    case False
    then show ?thesis
      using Cons.prems Cons.IH push_items_skipped[OF nn False, of S rest "[]"] by simp
  next
    case True
    from push_items_selected[OF nn True, of S rest]
    obtain r c where rc: "field item ''role'' = Some r" "chosen_content item = Some c"
      and step: "push_items S (item # rest) [] =
             (case normalizeContent S c of
                Inl e \<Rightarrow> Inl e
              | Inr n \<Rightarrow> push_items S rest ([] @ [\<lparr>role = r, content = n\<rparr>]))"
      by blast
    from Cons.prems step obtain n where n: "normalizeContent S c = Inr n"
      and run: "push_items S rest [\<lparr>role = r, content = n\<rparr>] = Inr ms"
      by (cases "normalizeContent S c") simp_all
    let ?m = "\<lparr>role = r, content = n\<rparr>"
    from run push_items_acc[of S rest "[?m]"]
    obtain ms' where ms': "push_items S rest [] = Inr ms'" "ms = ?m # ms'"
      by (cases "push_items S rest []") auto
    have "made_from S item ?m" using rc n by (simp add: made_from_def)
    then show ?thesis using True ms' Cons.IH[OF ms'(1)] by simp
  qed
qed

lemma push_items_well_formed:
  "list_all well_formed_item items \<Longrightarrow> \<exists>ms. push_items S items [] = Inr ms"
proof (induction items)
  case Nil
  show ?case by simp
next
  case (Cons item rest)
  then obtain ms where ms: "push_items S rest [] = Inr ms" by auto
  from Cons.prems have wf: "well_formed_item item" by simp
  then have nn: "item \<noteq> JNull" by (simp add: well_formed_item_def)
  show ?case
  proof (cases "selected item")
    case False
    then show ?thesis using ms push_items_skipped[OF nn False, of S rest "[]"] by simp
  next
    case True
    from push_items_selected[OF nn True, of S rest]
    obtain r c where rc: "chosen_content item = Some c"
      and step: "push_items S (item # rest) [] =
             (case normalizeContent S c of
                Inl e \<Rightarrow> Inl e
              | Inr n \<Rightarrow> push_items S rest ([] @ [\<lparr>role = r, content = n\<rparr>]))"
      by blast
    have "null_free_array (Some c)"
      using wf rc by (auto simp: well_formed_item_def chosen_content_def split: if_splits)
    then have "\<And>xs. c = JArr xs \<Longrightarrow> JNull \<notin> set xs" by auto
    then obtain n where n: "normalizeContent S c = Inr n"
      using normalizeContent_no_null[of c S] by blast
    show ?thesis
      using step n ms push_items_acc[of S rest "[\<lparr>role = r, content = n\<rparr>]"] by simp
  qed
qed

section \<open>The transformer in one expression\<close>

lemma transformRequest_normal_form:
  "transformRequest S r =
     (case input_messages S r of
        Inl e \<Rightarrow> Inl e
      | Inr ms \<Rightarrow>
          Inr \<lparr>chat_model = model r,
               messages = system_messages r @ ms,
               chat_temperature = (case temperature r of None \<Rightarrow> JNum (7 / 10) | Some v \<Rightarrow> v),
               chat_max_tokens = (case max_tokens r of None \<Rightarrow> JNum (- 1) | Some v \<Rightarrow> v),
               chat_stream = (case stream r of None \<Rightarrow> False | Some b \<Rightarrow> b),
               chat_tools = (case tools r of None \<Rightarrow> None | Some ts \<Rightarrow> if ts \<noteq> [] then Some ts else None),
               chat_parallel_tool_calls = parallel_tool_calls r\<rparr>)"
proof (cases "input r")
  case None
  then show ?thesis
    by (simp add: transformRequest_def Let_def input_messages_def
             split: option.splits bool.splits)
next
  case (Some v)
  show ?thesis
  proof (cases "\<exists>items. v = JArr items")
    case False
    then show ?thesis using Some
      by (cases v)
         (simp_all add: transformRequest_def Let_def input_messages_def
             split: option.splits bool.splits)
  next
    case True
    then obtain items where v: "v = JArr items" by blast
    show ?thesis
    proof (cases "push_items S items []")
      case (Inl e)
      then show ?thesis using Some v
        by (simp add: transformRequest_def Let_def input_messages_def
                      push_items_acc[of S items "system_messages r"])
    next
      case (Inr ms)
      then show ?thesis using Some v
        by (simp add: transformRequest_def Let_def input_messages_def
                      push_items_acc[of S items "system_messages r"]
                 split: option.splits bool.splits)
    qed
  qed
qed

section \<open>Claims about the transformer\<close>

text \<open>
  C1 (as amended). \<^verbatim>\<open>transformRequest\<close> returns an outbound request, without throwing, for
  every request body in which no entry of \<^verbatim>\<open>input\<close> is \<^verbatim>\<open>null\<close> and no entry has a
  \<^verbatim>\<open>content\<close> or \<^verbatim>\<open>text\<close> array holding \<^verbatim>\<open>null\<close>: missing fields, entries that are not
  objects and content of any other shape are skipped or passed on.
\<close>

theorem transformRequest_returns_on_well_formed_input:
  "(\<forall>items. input r = Some (JArr items) \<longrightarrow> list_all well_formed_item items)
     \<Longrightarrow> \<exists>t. transformRequest S r = Inr t"
proof -
  assume wf: "\<forall>items. input r = Some (JArr items) \<longrightarrow> list_all well_formed_item items"
  have "\<exists>ms. input_messages S r = Inr ms"
  proof (cases "\<exists>items. input r = Some (JArr items)")
    case True
    then obtain items where i: "input r = Some (JArr items)" by blast
    with wf have "list_all well_formed_item items" by simp
    from push_items_well_formed[OF this, of S] show ?thesis
      using i by (simp add: input_messages_def)
  next
    case False
    then show ?thesis
      by (auto simp: input_messages_def split: option.splits json.splits)
  qed
  then show ?thesis
    by (auto simp: transformRequest_normal_form)
qed

text \<open>
  An input with a number, a string, an empty object, an item without content and an item
  whose content is an object holding \<^verbatim>\<open>null\<close>: all entries are well formed and the
  transformer returns.
\<close>

theorem transformRequest_returns_on_well_formed_input_witness:
  "list_all well_formed_item
     [JNum 5, JStr ''text'', JObj [], JObj [(''role'', JStr ''user'')],
      JObj [(''role'', JStr ''user''), (''content'', JObj [(''a'', JNull)])]]
   \<and> (\<exists>t. transformRequest opaque_text
          (empty_request\<lparr>input := Some (JArr
             [JNum 5, JStr ''text'', JObj [], JObj [(''role'', JStr ''user'')],
              JObj [(''role'', JStr ''user''), (''content'', JObj [(''a'', JNull)])]])\<rparr>) = Inr t)"
  using transformRequest_returns_on_well_formed_input
          [of "empty_request\<lparr>input := Some (JArr
             [JNum 5, JStr ''text'', JObj [], JObj [(''role'', JStr ''user'')],
              JObj [(''role'', JStr ''user''), (''content'', JObj [(''a'', JNull)])]])\<rparr>" opaque_text]
  by (simp add: well_formed_item_def field_def)

text \<open>
  C1 as stated fails: on \<^verbatim>\<open>input: [null]\<close> the read \<^verbatim>\<open>item.role\<close> throws a TypeError, so
  the transformer is not total.
\<close>

theorem transformRequest_null_item_throws:
  "transformRequest opaque_text (empty_request\<lparr>input := Some (JArr [JNull])\<rparr>)
     = Inl (TypeError ''Cannot read properties of null (reading 'role')'')"
  by (simp add: transformRequest_def Let_def empty_request_def null_read_def)

text \<open>
  C2 (as amended). When \<^verbatim>\<open>transformRequest\<close> returns on a request whose \<^verbatim>\<open>input\<close> is an
  array, the messages after the system message are made, in the order of the items, from
  exactly the items whose \<^verbatim>\<open>role\<close> is truthy and whose \<^verbatim>\<open>content\<close> or \<^verbatim>\<open>text\<close> is truthy:
  each is the item's role with the normalized \<^verbatim>\<open>item.content || item.text\<close>. Every other
  item is skipped.
\<close>

theorem input_items_selected_by_truthiness:
  "transformRequest S r = Inr t \<Longrightarrow> input r = Some (JArr items) \<Longrightarrow>
     \<exists>ms. messages t = system_messages r @ ms
        \<and> list_all2 (made_from S) (filter selected items) ms"
proof -
  assume t: "transformRequest S r = Inr t" and i: "input r = Some (JArr items)"
  from t obtain ms where ms: "input_messages S r = Inr ms" "messages t = system_messages r @ ms"
    by (cases "input_messages S r") (auto simp: transformRequest_normal_form)
  from ms(1) i have "push_items S items [] = Inr ms" by (simp add: input_messages_def)
  from push_items_made_from[OF this] ms(2) show ?thesis by blast
qed

text \<open>
  Four items: one with role and content, one with a role only, one with content only, and
  one whose content is the empty string and whose text is used instead.
\<close>

theorem input_items_selected_by_truthiness_witness:
  "transformRequest opaque_text
     (empty_request\<lparr>input := Some (JArr
        [JObj [(''role'', JStr ''user''), (''content'', JStr ''Hello!'')],
         JObj [(''role'', JStr ''user'')],
         JObj [(''content'', JStr ''no role'')],
         JObj [(''role'', JStr ''assistant''), (''content'', JStr []), (''text'', JStr ''Hi'')]])\<rparr>)
   = Inr \<lparr>chat_model = Some ''gpt-4'',
          messages = [\<lparr>role = JStr ''user'', content = JStr ''Hello!''\<rparr>,
                      \<lparr>role = JStr ''assistant'', content = JStr ''Hi''\<rparr>],
          chat_temperature = JNum (7 / 10),
          chat_max_tokens = JNum (- 1), chat_stream = False, chat_tools = None,
          chat_parallel_tool_calls = None\<rparr>
   \<and> (\<exists>ms. [\<lparr>role = JStr ''user'', content = JStr ''Hello!''\<rparr>,
              \<lparr>role = JStr ''assistant'', content = JStr ''Hi''\<rparr>] = [] @ ms
          \<and> list_all2 (made_from opaque_text)
                [JObj [(''role'', JStr ''user''), (''content'', JStr ''Hello!'')],
                 JObj [(''role'', JStr ''assistant''), (''content'', JStr []), (''text'', JStr ''Hi'')]] ms)"
proof -
  let ?items = "[JObj [(''role'', JStr ''user''), (''content'', JStr ''Hello!'')],
         JObj [(''role'', JStr ''user'')],
         JObj [(''content'', JStr ''no role'')],
         JObj [(''role'', JStr ''assistant''), (''content'', JStr []), (''text'', JStr ''Hi'')]]"
  let ?r = "empty_request\<lparr>input := Some (JArr ?items)\<rparr>"
  let ?t = "\<lparr>chat_model = Some ''gpt-4'',
          messages = [\<lparr>role = JStr ''user'', content = JStr ''Hello!''\<rparr>,
                      \<lparr>role = JStr ''assistant'', content = JStr ''Hi''\<rparr>],
          chat_temperature = JNum (7 / 10),
          chat_max_tokens = JNum (- 1), chat_stream = False, chat_tools = None,
          chat_parallel_tool_calls = None\<rparr>"
  have run: "transformRequest opaque_text ?r = Inr ?t"
    by (simp add: transformRequest_def Let_def empty_request_def content_or_text_def system_messages_def)
  have inp: "input ?r = Some (JArr ?items)" by simp
  have sys: "system_messages ?r = []" by (simp add: system_messages_def empty_request_def)
  have sel: "filter selected ?items =
               [JObj [(''role'', JStr ''user''), (''content'', JStr ''Hello!'')],
                JObj [(''role'', JStr ''assistant''), (''content'', JStr []), (''text'', JStr ''Hi'')]]"
    by (simp add: selected_def field_def)
  from input_items_selected_by_truthiness[OF run inp] run show ?thesis
    by (simp only: sys sel OpenAIChatFormat.simps simp_thms)
qed

text \<open>
  C2 as stated fails: the item \<^verbatim>\<open>{role: "user", content: ""}\<close> has a role and a content
  field, and no message is appended for it.
\<close>

theorem transformRequest_skips_empty_content:
  "transformRequest opaque_text
     (empty_request\<lparr>input := Some (JArr [JObj [(''role'', JStr ''user''), (''content'', JStr [])]])\<rparr>)
   = Inr \<lparr>chat_model = Some ''gpt-4'', messages = [], chat_temperature = JNum (7 / 10),
          chat_max_tokens = JNum (- 1), chat_stream = False, chat_tools = None,
          chat_parallel_tool_calls = None\<rparr>"
  by (simp add: transformRequest_def Let_def empty_request_def content_or_text_def system_messages_def)

text \<open>
  C3 (as amended). When \<^verbatim>\<open>instructions\<close> is set and not the empty string and
  \<^verbatim>\<open>transformRequest\<close> returns, the first message is
  \<^verbatim>\<open>{role: "system", content: instructions}\<close> and the messages made from \<^verbatim>\<open>input\<close> follow it.
\<close>

theorem system_message_first:
  "instructions r = Some i \<Longrightarrow> i \<noteq> [] \<Longrightarrow> transformRequest S r = Inr t \<Longrightarrow>
     \<exists>ms. messages t = \<lparr>role = JStr ''system'', content = JStr i\<rparr> # ms
        \<and> input_messages S r = Inr ms"
  by (cases "input_messages S r")
     (auto simp: transformRequest_normal_form system_messages_def)

text \<open>The scenario of the contract test: instructions and one user message.\<close>

theorem system_message_first_witness:
  "transformRequest opaque_text
     (empty_request\<lparr>instructions := Some ''You are a helpful assistant.'',
                    input := Some (JArr [JObj [(''role'', JStr ''user''), (''content'', JStr ''Hello!'')]])\<rparr>)
   = Inr \<lparr>chat_model = Some ''gpt-4'',
          messages = [\<lparr>role = JStr ''system'', content = JStr ''You are a helpful assistant.''\<rparr>,
                      \<lparr>role = JStr ''user'', content = JStr ''Hello!''\<rparr>],
          chat_temperature = JNum (7 / 10),
          chat_max_tokens = JNum (- 1), chat_stream = False, chat_tools = None,
          chat_parallel_tool_calls = None\<rparr>
   \<and> (\<exists>ms. [\<lparr>role = JStr ''system'', content = JStr ''You are a helpful assistant.''\<rparr>,
              \<lparr>role = JStr ''user'', content = JStr ''Hello!''\<rparr>]
             = \<lparr>role = JStr ''system'', content = JStr ''You are a helpful assistant.''\<rparr> # ms)"
proof -
  let ?r = "empty_request\<lparr>instructions := Some ''You are a helpful assistant.'',
                    input := Some (JArr [JObj [(''role'', JStr ''user''), (''content'', JStr ''Hello!'')]])\<rparr>"
  let ?t = "\<lparr>chat_model = Some ''gpt-4'',
          messages = [\<lparr>role = JStr ''system'', content = JStr ''You are a helpful assistant.''\<rparr>,
                      \<lparr>role = JStr ''user'', content = JStr ''Hello!''\<rparr>],
          chat_temperature = JNum (7 / 10),
          chat_max_tokens = JNum (- 1), chat_stream = False, chat_tools = None,
          chat_parallel_tool_calls = None\<rparr>"
  have run: "transformRequest opaque_text ?r = Inr ?t"
    by (simp add: transformRequest_def Let_def empty_request_def content_or_text_def system_messages_def)
  have i: "instructions ?r = Some ''You are a helpful assistant.''" by simp
  have ne: "''You are a helpful assistant.'' \<noteq> []" by simp
  from system_message_first[OF i ne run] run show ?thesis by auto
qed

text \<open>
  C3 as stated fails: with \<^verbatim>\<open>instructions: ""\<close> the field is set, no system message is
  pushed, and the first message is the user's.
\<close>

theorem empty_instructions_no_system_message:
  "transformRequest opaque_text
     (empty_request\<lparr>instructions := Some [],
                    input := Some (JArr [JObj [(''role'', JStr ''user''), (''content'', JStr ''hi'')]])\<rparr>)
   = Inr \<lparr>chat_model = Some ''gpt-4'',
          messages = [\<lparr>role = JStr ''user'', content = JStr ''hi''\<rparr>],
          chat_temperature = JNum (7 / 10),
          chat_max_tokens = JNum (- 1), chat_stream = False, chat_tools = None,
          chat_parallel_tool_calls = None\<rparr>"
  by (simp add: transformRequest_def Let_def empty_request_def content_or_text_def system_messages_def)

text \<open>
  C4 (as amended). In the request \<^verbatim>\<open>transformRequest\<close> returns, \<^verbatim>\<open>temperature\<close> is the inbound
  value when one is present (whatever it is, \<open>0\<close> included) and \<open>0.7\<close> otherwise;
  \<^verbatim>\<open>max_tokens\<close> is the inbound value when present and \<open>-1\<close> otherwise; \<^verbatim>\<open>stream\<close> is the
  inbound flag, \<^verbatim>\<open>false\<close> when absent; \<^verbatim>\<open>parallel_tool_calls\<close> is set exactly when the
  inbound request has it. And \<^verbatim>\<open>transformRequest\<close> does return whenever no entry of \<^verbatim>\<open>input\<close>
  is \<^verbatim>\<open>null\<close> and no entry has a \<^verbatim>\<open>content\<close> or \<^verbatim>\<open>text\<close> array holding \<^verbatim>\<open>null\<close>.
\<close>

theorem defaults_and_overrides:
  "(transformRequest S r = Inr t \<longrightarrow>
      chat_temperature t = (case temperature r of None \<Rightarrow> JNum (7 / 10) | Some v \<Rightarrow> v)
    \<and> chat_max_tokens t = (case max_tokens r of None \<Rightarrow> JNum (- 1) | Some v \<Rightarrow> v)
    \<and> chat_stream t = (case stream r of None \<Rightarrow> False | Some b \<Rightarrow> b)
    \<and> chat_parallel_tool_calls t = parallel_tool_calls r)
   \<and> ((\<forall>items. input r = Some (JArr items) \<longrightarrow> list_all well_formed_item items)
        \<longrightarrow> (\<exists>t'. transformRequest S r = Inr t'))"
proof (rule conjI; rule impI)
  assume "transformRequest S r = Inr t"
  then show "chat_temperature t = (case temperature r of None \<Rightarrow> JNum (7 / 10) | Some v \<Rightarrow> v)
    \<and> chat_max_tokens t = (case max_tokens r of None \<Rightarrow> JNum (- 1) | Some v \<Rightarrow> v)
    \<and> chat_stream t = (case stream r of None \<Rightarrow> False | Some b \<Rightarrow> b)
    \<and> chat_parallel_tool_calls t = parallel_tool_calls r"
    by (cases "input_messages S r") (auto simp: transformRequest_normal_form)
next
  assume wf: "\<forall>items. input r = Some (JArr items) \<longrightarrow> list_all well_formed_item items"
  have "\<exists>ms. input_messages S r = Inr ms"
  proof (cases "\<exists>items. input r = Some (JArr items)")
    case True
    then obtain items where i: "input r = Some (JArr items)" by blast
    with wf have "list_all well_formed_item items" by simp
    from push_items_well_formed[OF this, of S] show ?thesis
      using i by (simp add: input_messages_def)
  next
    case False
    then show ?thesis
      by (auto simp: input_messages_def split: option.splits json.splits)
  qed
  then show "\<exists>t'. transformRequest S r = Inr t'"
    by (auto simp: transformRequest_normal_form)
qed

text \<open>
  A request with one user message, a temperature of \<open>0\<close> and a \<^verbatim>\<open>parallel_tool_calls\<close> of
  \<^verbatim>\<open>false\<close>: the transformer returns, and both values are kept.
\<close>

theorem defaults_and_overrides_witness:
  "transformRequest opaque_text
     (empty_request\<lparr>input := Some (JArr [JObj [(''role'', JStr ''user''), (''content'', JStr ''Hello!'')]]),
                    temperature := Some (JNum 0), parallel_tool_calls := Some False\<rparr>)
   = Inr \<lparr>chat_model = Some ''gpt-4'',
          messages = [\<lparr>role = JStr ''user'', content = JStr ''Hello!''\<rparr>],
          chat_temperature = JNum 0,
          chat_max_tokens = JNum (- 1), chat_stream = False, chat_tools = None,
          chat_parallel_tool_calls = Some False\<rparr>
   \<and> list_all well_formed_item [JObj [(''role'', JStr ''user''), (''content'', JStr ''Hello!'')]]"
proof -
  let ?r = "empty_request\<lparr>input := Some (JArr [JObj [(''role'', JStr ''user''), (''content'', JStr ''Hello!'')]]),
                    temperature := Some (JNum 0), parallel_tool_calls := Some False\<rparr>"
  have wf: "\<forall>items. input ?r = Some (JArr items) \<longrightarrow> list_all well_formed_item items"
    by (simp add: well_formed_item_def field_def)
  from defaults_and_overrides[of opaque_text ?r] wf
  obtain t' where run: "transformRequest opaque_text ?r = Inr t'" by blast
  from defaults_and_overrides[of opaque_text ?r t'] run
  have vals: "chat_temperature t' = JNum 0" "chat_max_tokens t' = JNum (- 1)"
    "chat_stream t' = False" "chat_parallel_tool_calls t' = Some False"
    by (simp_all add: empty_request_def)
  have "transformRequest opaque_text ?r = Inr \<lparr>chat_model = Some ''gpt-4'',
          messages = [\<lparr>role = JStr ''user'', content = JStr ''Hello!''\<rparr>],
          chat_temperature = JNum 0,
          chat_max_tokens = JNum (- 1), chat_stream = False, chat_tools = None,
          chat_parallel_tool_calls = Some False\<rparr>"
    by (simp add: transformRequest_def Let_def empty_request_def content_or_text_def system_messages_def)
  with vals show ?thesis by (simp add: well_formed_item_def field_def)
qed

text \<open>
  C4 as stated fails: on \<^verbatim>\<open>{temperature: 0, input: [null]}\<close> the transformer throws, so
  this request gets no outbound request and no temperature at all.
\<close>

theorem no_defaults_when_transformer_throws:
  "transformRequest opaque_text
     (empty_request\<lparr>input := Some (JArr [JNull]), temperature := Some (JNum 0)\<rparr>)
     = Inl (TypeError ''Cannot read properties of null (reading 'role')'')"
  by (simp add: transformRequest_def Let_def empty_request_def null_read_def)

section \<open>Claims about the normalizer\<close>

text \<open>
  C5 (as amended). An array without \<^verbatim>\<open>null\<close> that has an element that is not a string and
  an element that is not a typed block is returned unchanged; a value that is neither a
  string nor an array is returned as its \<^verbatim>\<open>JSON.stringify\<close> text.
\<close>

theorem normalizer_passthrough_and_fallback:
  "(JNull \<notin> set xs \<and> \<not> list_all typeof_string xs \<and> \<not> list_all typed_block xs
      \<longrightarrow> normalizeContent S (JArr xs) = Inr (JArr xs))
   \<and> (\<not> typeof_string c \<and> (\<forall>ys. c \<noteq> JArr ys) \<longrightarrow> normalizeContent S c = Inr (JStr (S c)))"
proof (intro conjI impI)
  assume a: "JNull \<notin> set xs \<and> \<not> list_all typeof_string xs \<and> \<not> list_all typed_block xs"
  then have "every_string xs = None" by (simp add: every_string_None)
  moreover have "every_typed xs = Inr False" using a every_typed_no_null by simp
  ultimately show "normalizeContent S (JArr xs) = Inr (JArr xs)" by simp
next
  assume "\<not> typeof_string c \<and> (\<forall>ys. c \<noteq> JArr ys)"
  then show "normalizeContent S c = Inr (JStr (S c))"
    by (cases c) (simp_all add: typeof_string_def)
qed

text \<open>A mixed array is kept; an object is serialized.\<close>

theorem normalizer_passthrough_and_fallback_witness:
  "normalizeContent opaque_text (JArr [JObj [(''type'', JStr ''image'')], JNum 5])
     = Inr (JArr [JObj [(''type'', JStr ''image'')], JNum 5])
   \<and> normalizeContent opaque_text (JObj [(''a'', JNum 1)]) = Inr (JStr (opaque_text (JObj [(''a'', JNum 1)])))"
  using normalizer_passthrough_and_fallback
          [of "[JObj [(''type'', JStr ''image'')], JNum 5]" opaque_text "JObj [(''a'', JNum 1)]"]
  by (simp add: typeof_string_def typed_block_def field_def)

text \<open>
  C5 as stated fails: \<^verbatim>\<open>["a", "b"]\<close> is neither a plain string nor a list of typed blocks,
  and it is not passed through: it is joined into one string.
\<close>

theorem string_list_is_joined_not_passed_through:
  "normalizeContent opaque_text (JArr [JStr ''a'', JStr ''b''])
     = Inr (JStr [CHR ''a'', CHR 0x5C, CHR ''n'', CHR ''b''])"
  by (simp add: backslash_n_def)

text \<open>
  C6. An array whose elements are all strings is normalized to the elements joined with
  the two characters backslash and n, which is not the newline character.
\<close>

theorem string_list_joined_with_backslash_n:
  "normalizeContent S (JArr (map JStr ss)) = Inr (JStr (join [CHR 0x5C, CHR ''n''] ss))
   \<and> length [CHR 0x5C, CHR ''n''] = 2 \<and> [CHR 0x5C, CHR ''n''] \<noteq> [CHR 0x0A]"
  by (simp add: every_string_map backslash_n_def)

text \<open>Three strings, two separators.\<close>

theorem string_list_joined_with_backslash_n_witness:
  "normalizeContent opaque_text (JArr [JStr ''one'', JStr ''two'', JStr ''three''])
     = Inr (JStr (''one'' @ [CHR 0x5C, CHR ''n''] @ ''two'' @ [CHR 0x5C, CHR ''n''] @ ''three''))"
  using string_list_joined_with_backslash_n [of opaque_text "[''one'', ''two'', ''three'']"]
  by simp



section \<open>Claims about forwarding, handling and health\<close>

lemma handleNonStreamingRequest_true: "fst (handleNonStreamingRequest env b res) = True"
  by (simp add: handleNonStreamingRequest_def Let_def split: sum.splits)

lemma settled_healthy:
  "(case checkHealth p of Inl e \<Rightarrow> False | Inr b \<Rightarrow> b) = (checkHealth p = Inr True)"
  by (cases "checkHealth p") auto

text \<open>
  C7. In the buffered forward: when \<^verbatim>\<open>fetch\<close> resolves with a response that is not ok, of
  status \<open>s\<close> and body text \<open>t\<close>, the caller gets status \<open>s\<close> and \<open>t\<close> sent as it is; when
  \<^verbatim>\<open>fetch\<close> rejects with message \<open>m\<close>, the caller gets status 502 and the JSON body
  \<^verbatim>\<open>{error: "Error forwarding request: " + m}\<close>. In both cases the handler returns true.
\<close>

theorem buffered_forward_errors:
  "(fetch env (chat_completions_url env) (buffered_init env b) = Inr response
      \<and> \<not> ok response \<and> text_result response = Inr t
     \<longrightarrow> handleNonStreamingRequest env b res = (True, res @ [Status (status response), Send t]))
   \<and> (fetch env (chat_completions_url env) (buffered_init env b) = Inl e
     \<longrightarrow> handleNonStreamingRequest env b res
           = (True, res @ [Status 502,
                           Json (JObj [(''error'', JStr (''Error forwarding request: '' @ message e))])]))"
  by (simp add: handleNonStreamingRequest_def Let_def error_envelope_def)

text \<open>The two scenarios of the contract test: a 400 with \<^verbatim>\<open>Bad request\<close>, a network error.\<close>

theorem buffered_forward_errors_witness:
  "handleNonStreamingRequest
     (test_env (mockResolvedValue
        \<lparr>ok = False, status = 400, text_result = Inr ''Bad request'',
         json_result = Inl (Error ''Unexpected token B in JSON at position 0''), body_stream = None\<rparr>))
     hello_chat []
     = (True, [Status 400, Send ''Bad request''])
   \<and> handleNonStreamingRequest (test_env (mockRejectedValue (Error ''Network error''))) hello_chat []
     = (True, [Status 502, Json (JObj [(''error'', JStr ''Error forwarding request: Network error'')])])"
  using buffered_forward_errors
          [of "test_env (mockResolvedValue
                 \<lparr>ok = False, status = 400, text_result = Inr ''Bad request'',
                  json_result = Inl (Error ''Unexpected token B in JSON at position 0''), body_stream = None\<rparr>)"
              hello_chat _ "''Bad request''" "[]"]
        buffered_forward_errors
          [of "test_env (mockRejectedValue (Error ''Network error''))" hello_chat _ _ "[]" "Error ''Network error''"]
  by (simp add: test_env_def mockResolvedValue_def mockRejectedValue_def)

text \<open>
  C8. With one or more registered handlers the aggregate is true exactly when the
  \<^verbatim>\<open>checkHealth\<close> of at least one of them resolves with true, a rejecting one counting as
  unhealthy; with none it is true exactly when the one probe of the health path resolves
  with a response that is ok.
\<close>

theorem health_any_quorum:
  "(enabledPlugins \<noteq> []
      \<longrightarrow> checkUpstreamHealth env enabledPlugins = (\<exists>p \<in> set enabledPlugins. checkHealth p = Inr True))
   \<and> checkUpstreamHealth env []
       = (\<exists>response. fetch env (health_url env) (health_init env) = Inr response \<and> ok response)"
proof (intro conjI impI)
  assume "enabledPlugins \<noteq> []"
  then show "checkUpstreamHealth env enabledPlugins = (\<exists>p \<in> set enabledPlugins. checkHealth p = Inr True)"
    by (simp add: checkUpstreamHealth_def list_ex_iff settled_healthy)
next
  show "checkUpstreamHealth env []
       = (\<exists>response. fetch env (health_url env) (health_init env) = Inr response \<and> ok response)"
    by (simp add: checkUpstreamHealth_def health_probe_def split: sum.splits)
qed

text \<open>
  Two handlers, one healthy and one throwing: healthy. No handler and a failing probe:
  not healthy.
\<close>

theorem health_any_quorum_witness:
  "checkUpstreamHealth (test_env (mockRejectedValue (Error ''connect ECONNREFUSED'')))
     [\<lparr>name = ''first'', checkHealth = Inr True\<rparr>,
      \<lparr>name = ''second'', checkHealth = Inl (Error ''boom'')\<rparr>] = True
   \<and> checkUpstreamHealth (test_env (mockRejectedValue (Error ''connect ECONNREFUSED''))) [] = False"
  using health_any_quorum
          [of "[\<lparr>name = ''first'', checkHealth = Inr True\<rparr>,
                \<lparr>name = ''second'', checkHealth = Inl (Error ''boom'')\<rparr>]"
              "test_env (mockRejectedValue (Error ''connect ECONNREFUSED''))"]
  by (simp add: test_env_def mockRejectedValue_def)

section \<open>The response after its headers are sent\<close>

lemma headersSent_Nil: "headersSent [] = False"
  by (simp add: headersSent_def)

lemma headersSent_Cons: "headersSent (c # cs) = (sends_headers c \<or> headersSent cs)"
  by (simp add: headersSent_def)

lemma headersSent_append: "headersSent (res @ cs) = (headersSent res \<or> headersSent cs)"
  by (induction res) (simp_all add: headersSent_Nil headersSent_Cons)

lemmas headersSent_simps = headersSent_Nil headersSent_Cons headersSent_append

lemma express_calls_writes: "express_calls (map Write chunks) res = (None, res @ map Write chunks)"
  by (induction chunks arbitrary: res) simp_all

lemma headersSent_writes: "headersSent (map Write chunks) = (chunks \<noteq> [])"
  by (cases chunks) (simp_all add: headersSent_simps)

lemma status_json_unsent:
  "\<not> headersSent res \<Longrightarrow> express_calls [Status n, Json j] res = (None, res @ [Status n, Json j])"
  by (simp add: headersSent_simps)

lemma status_json_sent:
  "headersSent res \<Longrightarrow> express_calls [Status n, Json j] res = (Some ERR_HTTP_HEADERS_SENT, res @ [Status n])"
  by (simp add: headersSent_simps)

lemma streaming_catch_unsent:
  "\<not> headersSent res \<Longrightarrow> fst (streaming_catch res e) = Inr True"
  by (simp add: streaming_catch_def headersSent_simps)

lemma streaming_catch_sent:
  "headersSent res \<Longrightarrow>
     streaming_catch res e = (Inl ERR_HTTP_HEADERS_SENT, res @ [Status 502])"
  by (simp add: streaming_catch_def headersSent_simps)

lemma handle_catch_sent:
  "headersSent res \<Longrightarrow> handle_catch res e = (Inl ERR_HTTP_HEADERS_SENT, res @ [Status 500])"
  by (simp add: handle_catch_def headersSent_simps)

lemma handle_catch_unsent:
  "\<not> headersSent res \<Longrightarrow> fst (handle_catch res e) = Inr True"
  by (simp add: handle_catch_def headersSent_simps)


text \<open>
  The calls of the buffered forward are all taken by a response whose headers are not
  sent: none of them throws there.
\<close>

lemma buffered_calls_accepted:
  assumes "\<not> headersSent res"
  shows "\<exists>cs. snd (handleNonStreamingRequest env b res) = res @ cs
            \<and> express_calls cs res = (None, res @ cs)"
proof -
  have a: "\<And>n j. express_calls [Status n, Json j] res = (None, res @ [Status n, Json j])"
    and b: "\<And>n t. express_calls [Status n, Send t] res = (None, res @ [Status n, Send t])"
    and c: "\<And>j. express_calls [Json j] res = (None, res @ [Json j])"
    using assms by (simp_all add: headersSent_simps)
  show ?thesis
    using a b c
    by (auto simp add: handleNonStreamingRequest_def Let_def
             simp del: express_calls.simps split: sum.splits)
qed

lemma set_headers_unsent:
  "\<not> headersSent res \<Longrightarrow>
     express_calls [SetHeader a b, SetHeader c d, SetHeader e f] res
       = (None, res @ [SetHeader a b, SetHeader c d, SetHeader e f])
     \<and> \<not> headersSent (res @ [SetHeader a b, SetHeader c d, SetHeader e f])"
  by (simp add: headersSent_simps)

text \<open>
  On a response with unsent headers the streaming forward resolves with true unless the
  upstream fails in mid-stream, and then it rejects.
\<close>

lemma handleStreamingRequest_unsent:
  assumes "\<not> headersSent res"
  shows "fst (handleStreamingRequest env b res)
           = (if fails_mid_stream env b then Inl ERR_HTTP_HEADERS_SENT else Inr True)"
proof (cases "fetch env (chat_completions_url env) (streaming_init env b)")
  case (Inl e)
  then show ?thesis using assms
    by (simp add: handleStreamingRequest_def fails_mid_stream_def streaming_catch_unsent)
next
  case (Inr response)
  show ?thesis
  proof (cases "ok response")
    case False
    then show ?thesis using Inr assms
      by (cases "text_result response")
         (simp_all add: handleStreamingRequest_def fails_mid_stream_def streaming_catch_unsent
                        headersSent_simps)
  next
    case True
    let ?res1 = "res @ [SetHeader ''Content-Type'' ''text/event-stream'',
                        SetHeader ''Cache-Control'' ''no-cache'',
                        SetHeader ''Connection'' ''keep-alive'']"
    have h: "express_calls [SetHeader ''Content-Type'' ''text/event-stream'',
                            SetHeader ''Cache-Control'' ''no-cache'',
                            SetHeader ''Connection'' ''keep-alive''] res = (None, ?res1)"
      and u: "\<not> headersSent ?res1"
      using set_headers_unsent[OF assms] by blast+
    show ?thesis
    proof (cases "body_stream response")
      case None
      then show ?thesis using Inr True u
        by (simp add: handleStreamingRequest_def fails_mid_stream_def h status_json_unsent
                 del: express_calls.simps(2))
    next
      case (Some st)
      obtain chunks failure where st: "st = (chunks, failure)" by (cases st)
      show ?thesis
      proof (cases failure)
        case None
        then show ?thesis using Inr True Some st
          by (simp add: handleStreamingRequest_def fails_mid_stream_def h express_calls_writes
                   del: express_calls.simps(2))
             (simp add: headersSent_simps)
      next
        case (Some e)
        show ?thesis
        proof (cases "chunks = []")
          case True
          then show ?thesis using Inr \<open>ok response\<close> \<open>body_stream response = Some st\<close> st Some u
            by (simp add: handleStreamingRequest_def fails_mid_stream_def h
                          streaming_catch_unsent
                     del: express_calls.simps(2))
        next
          case False
          then have "headersSent (?res1 @ map Write chunks)"
            by (simp add: headersSent_simps headersSent_writes)
          from streaming_catch_sent[OF this, of e] show ?thesis
            using False Inr \<open>ok response\<close> \<open>body_stream response = Some st\<close> st Some
            by (simp add: handleStreamingRequest_def fails_mid_stream_def h express_calls_writes
                   del: express_calls.simps(2))
        qed
      qed
    qed
  qed
qed

lemma handleStreamingRequest_mid_stream:
  assumes "\<not> headersSent res" "fails_mid_stream env b"
  shows "\<exists>res1. handleStreamingRequest env b res = (Inl ERR_HTTP_HEADERS_SENT, res1) \<and> headersSent res1"
proof -
  from assms(2) obtain response chunks e where
    f: "fetch env (chat_completions_url env) (streaming_init env b) = Inr response"
    and o: "ok response" and bs: "body_stream response = Some (chunks, Some e)" and ne: "chunks \<noteq> []"
    by (auto simp: fails_mid_stream_def split: sum.splits option.splits prod.splits)
  let ?res1 = "res @ [SetHeader ''Content-Type'' ''text/event-stream'',
                      SetHeader ''Cache-Control'' ''no-cache'',
                      SetHeader ''Connection'' ''keep-alive'']"
  have h: "express_calls [SetHeader ''Content-Type'' ''text/event-stream'',
                          SetHeader ''Cache-Control'' ''no-cache'',
                          SetHeader ''Connection'' ''keep-alive''] res = (None, ?res1)"
    using set_headers_unsent[OF assms(1)] by blast
  have sent: "headersSent (?res1 @ map Write chunks)"
    using ne by (simp add: headersSent_simps headersSent_writes)
  have "handleStreamingRequest env b res
          = (Inl ERR_HTTP_HEADERS_SENT, (?res1 @ map Write chunks) @ [Status 502])"
    using f o bs streaming_catch_sent[OF sent, of e]
    by (simp add: handleStreamingRequest_def h express_calls_writes del: express_calls.simps(2))
  moreover have "headersSent ((?res1 @ map Write chunks) @ [Status 502])"
    using sent by (simp only: headersSent_append) simp
  ultimately show ?thesis by blast
qed

text \<open>
  \<^verbatim>\<open>handle\<close> resolves with true, except that it rejects when the request is a streaming
  one and the upstream fails in mid-stream.
\<close>

lemma handle_outcome:
  "fst (handle env req)
     = (case transformRequest (JSON_stringify env) (body req) of
          Inl error \<Rightarrow> Inr True
        | Inr b \<Rightarrow>
            if stream (body req) = Some True \<and> fails_mid_stream env b
            then Inl ERR_HTTP_HEADERS_SENT else Inr True)"
proof (cases "transformRequest (JSON_stringify env) (body req)")
  case (Inl error)
  then show ?thesis
    using handle_catch_unsent[of "[]" error]
    by (simp add: handle_def Let_def headersSent_Nil)
next
  case (Inr b)
  show ?thesis
  proof (cases "stream (body req) = Some True")
    case False
    then show ?thesis using Inr handleNonStreamingRequest_true[of env b "[]"]
      by (cases "handleNonStreamingRequest env b []") (simp add: handle_def Let_def)
  next
    case True
    have u: "\<not> headersSent []" by (simp add: headersSent_Nil)
    show ?thesis
    proof (cases "fails_mid_stream env b")
      case False
      with handleStreamingRequest_unsent[OF u, of env b] show ?thesis
        using Inr True
        by (cases "handleStreamingRequest env b []") (auto simp: handle_def Let_def)
    next
      case fm: True
      from handleStreamingRequest_mid_stream[OF u fm] obtain res1 where
        r: "handleStreamingRequest env b [] = (Inl ERR_HTTP_HEADERS_SENT, res1)" and s: "headersSent res1"
        by blast
      show ?thesis using Inr True fm r handle_catch_sent[OF s, of ERR_HTTP_HEADERS_SENT]
        by (simp add: handle_def Let_def)
    qed
  qed
qed

text \<open>
  C9. \<^verbatim>\<open>handle\<close> is to resolve with true on every path and never to reject, so that the
  middleware never calls \<^verbatim>\<open>next()\<close> for a request of this plugin. The code breaks this
  when the upstream fails in mid-stream. A streaming request is answered ok by the
  upstream, whose body yields one chunk and then throws: the chunk is written, the
  \<^verbatim>\<open>catch\<close> block of the streaming forward sets status 502 and its \<^verbatim>\<open>json\<close> throws, the
  \<^verbatim>\<open>catch\<close> block of \<^verbatim>\<open>handle\<close> sets status 500 and its \<^verbatim>\<open>json\<close> throws again, \<^verbatim>\<open>handle\<close>
  rejects and the middleware calls \<^verbatim>\<open>next()\<close>.
\<close>

theorem handle_rejects_on_mid_stream_failure:
  "handle
     (test_env (mockResolvedValue
        \<lparr>ok = True, status = 200, text_result = Inr [], json_result = Inr JNull,
         body_stream = Some ([''data: first''], Some (Error ''socket hang up''))\<rparr>))
     \<lparr>http_method = ''POST'', path = ''/v1/responses'',
      body = empty_request\<lparr>input := Some (JArr [JObj [(''role'', JStr ''user''), (''content'', JStr ''Stream this!'')]]),
                           stream := Some True\<rparr>\<rparr>
   = (Inl ERR_HTTP_HEADERS_SENT,
      [SetHeader ''Content-Type'' ''text/event-stream'',
       SetHeader ''Cache-Control'' ''no-cache'',
       SetHeader ''Connection'' ''keep-alive'',
       Write ''data: first'',
       Status 502,
       Status 500])
   \<and> fst (plugin_middleware
            (Some (handle (test_env (mockResolvedValue
               \<lparr>ok = True, status = 200, text_result = Inr [], json_result = Inr JNull,
                body_stream = Some ([''data: first''], Some (Error ''socket hang up''))\<rparr>))))
            \<lparr>http_method = ''POST'', path = ''/v1/responses'',
             body = empty_request\<lparr>input := Some (JArr [JObj [(''role'', JStr ''user''), (''content'', JStr ''Stream this!'')]]),
                                  stream := Some True\<rparr>\<rparr>) = True"
proof -
  let ?env = "test_env (mockResolvedValue
        \<lparr>ok = True, status = 200, text_result = Inr [], json_result = Inr JNull,
         body_stream = Some ([''data: first''], Some (Error ''socket hang up''))\<rparr>)"
  let ?req = "\<lparr>http_method = ''POST'', path = ''/v1/responses'',
      body = empty_request\<lparr>input := Some (JArr [JObj [(''role'', JStr ''user''), (''content'', JStr ''Stream this!'')]]),
                           stream := Some True\<rparr>\<rparr>"
  have t: "\<exists>b. transformRequest (JSON_stringify ?env) (body ?req) = Inr b"
    by (simp add: transformRequest_def Let_def empty_request_def content_or_text_def system_messages_def)
  then obtain b where b: "transformRequest (JSON_stringify ?env) (body ?req) = Inr b" by blast
  have s: "handleStreamingRequest ?env b []
             = (Inl ERR_HTTP_HEADERS_SENT,
                [SetHeader ''Content-Type'' ''text/event-stream'',
                 SetHeader ''Cache-Control'' ''no-cache'',
                 SetHeader ''Connection'' ''keep-alive'',
                 Write ''data: first'',
                 Status 502])"
    by (simp add: handleStreamingRequest_def test_env_def mockResolvedValue_def
                  streaming_catch_def headersSent_simps)
  have h: "handle ?env ?req
             = (Inl ERR_HTTP_HEADERS_SENT,
                [SetHeader ''Content-Type'' ''text/event-stream'',
                 SetHeader ''Cache-Control'' ''no-cache'',
                 SetHeader ''Connection'' ''keep-alive'',
                 Write ''data: first'',
                 Status 502,
                 Status 500])"
    using b s
    by (simp add: handle_def Let_def handle_catch_def headersSent_simps del: express_calls.simps(2))
       (simp add: headersSent_simps)
  have m: "fst (plugin_middleware (Some (handle ?env)) ?req) = True"
    using h by (simp add: plugin_middleware_def)
  from h m show ?thesis by blast
qed

end
